theory Spec2Isabelle
  imports Main
begin

section \<open>Runtime objects\<close>

text \<open>
  The objects that plans carry and that the capture table holds. Only the shapes the code
  generator distinguishes are modelled: values with a literal rendering (integers,
  strings, booleans, \<open>None\<close>, lists and tuples of such), callables with or without a
  \<open>__name__\<close>, the getters of accessors, signature objects, and opaque instances.
  The natural number of \<open>PyFunction\<close> and \<open>PyOpaque\<close> is the object's identity.
  A \<open>string\<close> is read as a sequence of code points below 256. The attribute name of
  an accessor is a \<open>String.literal\<close>, a string of ASCII characters: it is the one string
  of a plan that the generator has parsed as an identifier, and the parser puts
  identifiers in the normal form NFKC, which changes no ASCII character.
\<close>

datatype signature = Signature (parameters: "string list") (no_types_text: string)

datatype pyobj =
    PyInt int
  | PyStr string
  | PyBool bool
  | PyNone
  | PyList "pyobj list"
  | PyTuple "pyobj list"
  | PyFunction "string option" nat
  | PyOpaque nat
  | PyAttrGetter string
  | PyItemGetter pyobj
  | PySignature signature

text \<open>\<open>special_cases_optimization.as_is_stub\<close>: the designated identity function.\<close>

definition as_is_stub :: pyobj where
  "as_is_stub = PyFunction (Some ''as_is_stub'') 0"

text \<open>\<open>getattr(func, '__name__', None)\<close>.\<close>

fun func_name :: "pyobj \<Rightarrow> string option" where
  "func_name (PyFunction n _) = n"
| "func_name _ = None"

section \<open>Decimal rendering of counters\<close>

text \<open>\<open>str(n)\<close> for a non-negative integer, as the f-strings \<open>f"{prefix}_{number}"\<close> and
  \<open>f"{base}_{i}"\<close> use it.\<close>

definition digit_char :: "nat \<Rightarrow> char" where
  "digit_char d = char_of (48 + d)"

fun str_nat :: "nat \<Rightarrow> string" where
  "str_nat n = (if n < 10 then [digit_char n] else str_nat (n div 10) @ [digit_char (n mod 10)])"

declare str_nat.simps [simp del]

definition nat_of_str :: "string \<Rightarrow> nat" where
  "nat_of_str s = foldl (\<lambda>acc c. 10 * acc + (of_char c - 48)) 0 s"

text \<open>\<open>f"{base}_{i}"\<close>\<close>

definition mangled :: "string \<Rightarrow> nat \<Rightarrow> string" where
  "mangled base i = base @ ''_'' @ str_nat i"

section \<open>Symbol namespace\<close>

datatype error = NameCollision | SyntaxError

text \<open>
  Modelled from the spec: \<open>BuiltinContextNamespace\<close> (code_tools/context_namespace.py) is
  not among the sources. Section 3 describes it as a mapping from identifier to bound
  object plus a set of occupied names; section 4.2 gives its contract: a membership
  test, and \<open>add(name, object)\<close>, which fails with \<open>NameCollision\<close> if \<open>name\<close> is
  already bound or occupied. The mapping is kept as an association list in insertion
  order, as a Python dict is.
\<close>

record context_namespace =
  dict :: "(string \<times> pyobj) list"
  occupied :: "string list"

definition namespace_contains :: "context_namespace \<Rightarrow> string \<Rightarrow> bool" where
  "namespace_contains ns name \<longleftrightarrow> name \<in> set (map fst (dict ns)) \<or> name \<in> set (occupied ns)"

definition namespace_add :: "context_namespace \<Rightarrow> string \<Rightarrow> pyobj \<Rightarrow> error + context_namespace" where
  "namespace_add ns name obj =
     (if namespace_contains ns name then Inl NameCollision
      else Inr (ns\<lparr>dict := dict ns @ [(name, obj)]\<rparr>))"

text \<open>\<open>BuiltinContextNamespace(occupied=signature.parameters.keys())\<close>\<close>

definition BuiltinContextNamespace :: "string list \<Rightarrow> context_namespace" where
  "BuiltinContextNamespace occ = \<lparr>dict = [], occupied = occ\<rparr>"

section \<open>Generator state\<close>

record gen_state =
  ctx_namespace :: context_namespace
  prefix_counter :: "string \<Rightarrow> nat"

text \<open>\<open>GenState.__init__\<close>: the counter is a \<open>defaultdict\<close> with default 0.\<close>

definition GenState :: "context_namespace \<Rightarrow> gen_state" where
  "GenState ns = \<lparr>ctx_namespace = ns, prefix_counter = (\<lambda>_. 0)\<rparr>"

lemma nat_of_str_snoc: "nat_of_str (s @ [c]) = 10 * nat_of_str s + (of_char c - 48)"
  by (simp add: nat_of_str_def)

lemma nat_of_str_digit: "d < 10 \<Longrightarrow> nat_of_str [digit_char d] = d"
  by (simp add: nat_of_str_def digit_char_def)

lemma nat_of_str_str_nat: "nat_of_str (str_nat n) = n"
proof (induction n rule: str_nat.induct)
  case (1 n)
  show ?case
  proof (cases "n < 10")
    case True
    then show ?thesis by (simp add: str_nat.simps [of n] nat_of_str_digit)
  next
    case False
    have d: "of_char (digit_char (n mod 10)) - 48 = n mod 10"
      by (simp add: digit_char_def)
    from False 1 have "nat_of_str (str_nat (n div 10)) = n div 10" by simp
    with False d show ?thesis
      by (simp add: str_nat.simps [of n] nat_of_str_snoc)
  qed
qed

lemma inj_str_nat: "inj str_nat"
  by (rule inj_on_inverseI [where g = nat_of_str]) (rule nat_of_str_str_nat)

lemma inj_mangled: "inj (mangled base)"
  using inj_str_nat by (auto simp: inj_def mangled_def)

lemma mangled_eq_iff [simp]: "mangled base i = mangled base j \<longleftrightarrow> i = j"
  using inj_mangled [of base] by (auto dest: injD)

lemma finite_probed: "finite {j. namespace_contains ns (mangled base j)}"
proof -
  have "{j. namespace_contains ns (mangled base j)}
      = mangled base -` (set (map fst (dict ns)) \<union> set (occupied ns))"
    by (auto simp: namespace_contains_def)
  then show ?thesis
    by (simp add: finite_vimageI inj_mangled del: set_map)
qed

text \<open>
  The loop \<open>for i in itertools.count(1)\<close> of \<open>register_mangled\<close>: the first \<open>i\<close>, counting
  up from the given one, whose name \<open>f"{base}_{i}"\<close> is not in the namespace. The namespace
  is finite and the names are pairwise distinct, so the loop ends.
\<close>

function probe :: "context_namespace \<Rightarrow> string \<Rightarrow> nat \<Rightarrow> string" where
  "probe ns base i =
     (if namespace_contains ns (mangled base i) then probe ns base (Suc i) else mangled base i)"
  by pat_completeness auto
termination
proof (relation "measure (\<lambda>(ns, base, i). card {j. i \<le> j \<and> namespace_contains ns (mangled base j)})")
  show "wf (measure (\<lambda>(ns, base, i). card {j. i \<le> j \<and> namespace_contains ns (mangled base j)}))"
    by simp
next
  fix ns :: context_namespace and base :: string and i :: nat
  assume bound: "namespace_contains ns (mangled base i)"
  let ?A = "\<lambda>k. {j. k \<le> j \<and> namespace_contains ns (mangled base j)}"
  have fin: "finite (?A i)"
    by (rule finite_subset [OF _ finite_probed [of ns base]]) auto
  have "?A (Suc i) \<subset> ?A i"
    using bound by (auto simp: Suc_le_eq)
  with fin have "card (?A (Suc i)) < card (?A i)"
    by (rule psubset_card_mono)
  then show "((ns, base, Suc i), (ns, base, i))
      \<in> measure (\<lambda>(ns, base, i). card {j. i \<le> j \<and> namespace_contains ns (mangled base j)})"
    by simp
qed

declare probe.simps [simp del]

text \<open>
  \<open>GenState.register_mangled\<close>. An exception does not undo what the call has done before
  it, so the state is returned beside the outcome.
\<close>

definition register_mangled :: "gen_state \<Rightarrow> string \<Rightarrow> pyobj \<Rightarrow> (error + string) \<times> gen_state" where
  "register_mangled st base obj =
     (if \<not> namespace_contains (ctx_namespace st) base then
        (case namespace_add (ctx_namespace st) base obj of
           Inl e \<Rightarrow> (Inl e, st)
         | Inr ns' \<Rightarrow> (Inr base, st\<lparr>ctx_namespace := ns'\<rparr>))
      else
        (let name = probe (ctx_namespace st) base 1 in
         case namespace_add (ctx_namespace st) base obj of
           Inl e \<Rightarrow> (Inl e, st)
         | Inr ns' \<Rightarrow> (Inr name, st\<lparr>ctx_namespace := ns'\<rparr>)))"

text \<open>\<open>GenState.register_next_id\<close>\<close>

definition register_next_id :: "gen_state \<Rightarrow> string \<Rightarrow> pyobj \<Rightarrow> (error + string) \<times> gen_state" where
  "register_next_id st prefix obj =
     (let number = prefix_counter st prefix;
          st1 = st\<lparr>prefix_counter := (prefix_counter st)(prefix := prefix_counter st prefix + 1)\<rparr>;
          name = mangled prefix number
      in register_mangled st1 name obj)"

section \<open>Literal rendering\<close>

text \<open>\<open>str.join\<close>\<close>

fun join :: "string \<Rightarrow> string list \<Rightarrow> string" where
  "join sep [] = []"
| "join sep [x] = x"
| "join sep (x # y # ys) = x @ sep @ join sep (y # ys)"

text \<open>\<open>repr\<close> of an integer: decimal digits, with a minus sign when negative.\<close>

definition py_repr_int :: "int \<Rightarrow> string" where
  "py_repr_int i = (if i < 0 then ''-'' @ str_nat (nat (- i)) else str_nat (nat i))"

text \<open>
  \<open>repr\<close> of a string: enclosed in single quotes, or in double quotes when the string
  has a single quote and no double quote; the enclosing quote and the backslash are
  escaped, tab, newline and carriage return are written \<open>\t\<close>, \<open>\n\<close>, \<open>\r\<close>, and the
  other non-printable code points below 256 as \<open>\xNN\<close>.
\<close>

definition repr_quote :: "string \<Rightarrow> char" where
  "repr_quote s = (if CHR 0x27 \<in> set s \<and> CHR 0x22 \<notin> set s then CHR 0x22 else CHR 0x27)"

definition hex_digit :: "nat \<Rightarrow> char" where
  "hex_digit d = (if d < 10 then char_of (48 + d) else char_of (87 + d))"

definition repr_char :: "char \<Rightarrow> char \<Rightarrow> string" where
  "repr_char q c =
     (let n = (of_char c :: nat) in
      if c = q \<or> c = CHR 0x5C then [CHR 0x5C, c]
      else if c = CHR 0x09 then [CHR 0x5C, CHR ''t'']
      else if c = CHR 0x0A then [CHR 0x5C, CHR ''n'']
      else if c = CHR 0x0D then [CHR 0x5C, CHR ''r'']
      else if n < 32 \<or> (127 \<le> n \<and> n \<le> 160) \<or> n = 173
        then [CHR 0x5C, CHR ''x'', hex_digit (n div 16), hex_digit (n mod 16)]
      else [c])"

definition py_repr_str :: "string \<Rightarrow> string" where
  "py_repr_str s = (let q = repr_quote s in q # concat (map (repr_char q) s) @ [q])"

text \<open>
  Modelled from the spec: \<open>get_literal_expr\<close> (code_tools/utils.py) is not among the
  sources. Section 4.3: a value has a safe literal rendering when it is a number, a
  string, a boolean, the none-value, or a literal container thereof, recursively, with
  no embedded non-literal object; the result is the literal's source text, \<open>None\<close> for
  every other object. Numbers are the integers here; containers are lists and tuples.
\<close>

fun get_literal_expr :: "pyobj \<Rightarrow> string option"
  and get_literal_exprs :: "pyobj list \<Rightarrow> string list option" where
  "get_literal_expr (PyInt i) = Some (py_repr_int i)"
| "get_literal_expr (PyStr s) = Some (py_repr_str s)"
| "get_literal_expr (PyBool b) = Some (if b then ''True'' else ''False'')"
| "get_literal_expr PyNone = Some ''None''"
| "get_literal_expr (PyList xs) =
     (case get_literal_exprs xs of
        None \<Rightarrow> None
      | Some ts \<Rightarrow> Some (''['' @ join '', '' ts @ '']''))"
| "get_literal_expr (PyTuple xs) =
     (case get_literal_exprs xs of
        None \<Rightarrow> None
      | Some [t] \<Rightarrow> Some (''('' @ t @ '',)'')
      | Some ts \<Rightarrow> Some (''('' @ join '', '' ts @ '')''))"
| "get_literal_expr (PyFunction n i) = None"
| "get_literal_expr (PyOpaque i) = None"
| "get_literal_expr (PyAttrGetter a) = None"
| "get_literal_expr (PyItemGetter k) = None"
| "get_literal_expr (PySignature s) = None"
| "get_literal_exprs [] = Some []"
| "get_literal_exprs (x # xs) =
     (case get_literal_expr x of
        None \<Rightarrow> None
      | Some t \<Rightarrow> (case get_literal_exprs xs of None \<Rightarrow> None | Some ts \<Rightarrow> Some (t # ts)))"

text \<open>
  \<open>str.isidentifier\<close>: a non-empty string whose first code point is a letter or the
  underscore (\<open>XID_Start\<close>) and whose other code points are letters, digits, the
  underscore or the middle dot (\<open>XID_Continue\<close>), for code points below 256.
\<close>

definition xid_start :: "char \<Rightarrow> bool" where
  "xid_start c =
     (let n = (of_char c :: nat) in
      (65 \<le> n \<and> n \<le> 90) \<or> (97 \<le> n \<and> n \<le> 122) \<or> n = 95 \<or>
      n = 170 \<or> n = 181 \<or> n = 186 \<or>
      (192 \<le> n \<and> n \<le> 214) \<or> (216 \<le> n \<and> n \<le> 246) \<or> 248 \<le> n)"

definition xid_continue :: "char \<Rightarrow> bool" where
  "xid_continue c =
     (let n = (of_char c :: nat) in xid_start c \<or> (48 \<le> n \<and> n \<le> 57) \<or> n = 183)"

fun isidentifier :: "string \<Rightarrow> bool" where
  "isidentifier [] = False"
| "isidentifier (c # cs) = (xid_start c \<and> list_all xid_continue cs)"

section \<open>Plans\<close>

text \<open>
  \<open>model_tools.definitions\<close>: an accessor is a \<open>DescriptorAccessor\<close> with its
  \<open>attr_name\<close>, an \<open>ItemAccessor\<close> with its \<open>key\<close>, or any other accessor, known by
  its \<open>getter\<close> only.
\<close>

datatype accessor =
    DescriptorAccessor String.literal
  | ItemAccessor pyobj
  | CustomAccessor pyobj

fun getter :: "accessor \<Rightarrow> pyobj" where
  "getter (DescriptorAccessor a) = PyAttrGetter (String.explode a)"
| "getter (ItemAccessor k) = PyItemGetter k"
| "getter (CustomAccessor g) = g"

text \<open>\<open>BroachingPlan\<close> and the argument slots of \<open>broaching.definitions\<close>.\<close>

datatype plan =
    ParameterElement string
  | ConstantElement pyobj
  | FunctionElement pyobj "arg list"
  | AccessorElement plan accessor
and arg =
    PositionalArg plan
  | KeywordArg string plan
  | UnpackMapping plan
  | UnpackIterable plan

section \<open>Syntax trees\<close>

text \<open>
  The \<open>ast\<close> nodes the generator builds. \<open>Parsed t\<close> is the node that parsing the source
  text \<open>t\<close> of a literal gives (\<open>ast.parse(expr)\<close>, or a literal inside a template). A
  \<open>keyword\<close> without a name is a mapping unpacked into the call.
\<close>

datatype py_ast =
    Name string
  | Parsed string
  | Call py_ast "py_ast list" "keyword list"
  | Starred py_ast
  | Attribute py_ast string
  | Subscript py_ast py_ast
and keyword = Keyword "string option" py_ast

text \<open>
  Modelled from the spec: \<open>ast_substitute\<close> (code_tools/ast_templater.py) is not among
  the sources. It parses a template and puts the given tree in the place of the name
  \<open>__target_expr__\<close>; section 4.3 names the templates' results: dotted-member syntax,
  a dynamic-attribute-access call, indexing syntax, a call wrapping the lowered target.
  \<open>ast_substitute\<close> here takes the tree that the template's text parses to. Three of the
  four templates of \<open>_gen_accessor_element\<close> always parse: the texts put into them are
  the \<open>repr\<close> of a string, which is a string literal, and an allocated name
  \<open>accessor_N\<close>. The dotted template \<open>f'__target_expr__.{attr_name}'\<close> need not parse:
  see \<open>parse_attribute_template\<close>.
\<close>

fun ast_substitute :: "py_ast \<Rightarrow> py_ast \<Rightarrow> py_ast"
  and ast_substitute_keyword :: "keyword \<Rightarrow> py_ast \<Rightarrow> keyword" where
  "ast_substitute (Name n) target_expr = (if n = ''__target_expr__'' then target_expr else Name n)"
| "ast_substitute (Parsed t) target_expr = Parsed t"
| "ast_substitute (Call f as ks) target_expr =
     Call (ast_substitute f target_expr)
       (map (\<lambda>a. ast_substitute a target_expr) as)
       (map (\<lambda>k. ast_substitute_keyword k target_expr) ks)"
| "ast_substitute (Starred e) target_expr = Starred (ast_substitute e target_expr)"
| "ast_substitute (Attribute e a) target_expr = Attribute (ast_substitute e target_expr) a"
| "ast_substitute (Subscript e k) target_expr =
     Subscript (ast_substitute e target_expr) (ast_substitute k target_expr)"
| "ast_substitute_keyword (Keyword k v) target_expr = Keyword k (ast_substitute v target_expr)"

text \<open>
  \<open>keyword.kwlist\<close>: the reserved words of Python. Each of them passes
  \<open>str.isidentifier\<close>, and none of them can stand where the grammar asks for an
  identifier.
\<close>

definition kwlist :: "string list" where
  "kwlist =
     [''False'', ''None'', ''True'', ''and'', ''as'', ''assert'', ''async'', ''await'',
      ''break'', ''class'', ''continue'', ''def'', ''del'', ''elif'', ''else'', ''except'',
      ''finally'', ''for'', ''from'', ''global'', ''if'', ''import'', ''in'', ''is'',
      ''lambda'', ''nonlocal'', ''not'', ''or'', ''pass'', ''raise'', ''return'', ''try'',
      ''while'', ''with'', ''yield'']"

definition iskeyword :: "string \<Rightarrow> bool" where
  "iskeyword s \<longleftrightarrow> s \<in> set kwlist"

text \<open>
  The parse of the text \<open>f'__target_expr__.{attr_name}'\<close> (line 155), for an attribute
  name that has passed \<open>isidentifier\<close>: a reserved word after the dot is a syntax
  error; any other name gives the attribute node of that name on the placeholder (the
  parser's NFKC normal form of an ASCII name is the name itself).
\<close>

definition parse_attribute_template :: "String.literal \<Rightarrow> error + py_ast" where
  "parse_attribute_template attr_name =
     (if iskeyword (String.explode attr_name) then Inl SyntaxError
      else Inr (Attribute (Name ''__target_expr__'') (String.explode attr_name)))"

text \<open>
  Modelled from the spec: \<open>compat_ast_unparse\<close> (compat.py) is not among the sources.
  It gives the source text of a tree: an identifier as itself, a literal as its text,
  a call with its argument slots left to right, dotted-member and indexing syntax.
\<close>

fun compat_ast_unparse :: "py_ast \<Rightarrow> string"
  and unparse_keyword :: "keyword \<Rightarrow> string" where
  "compat_ast_unparse (Name n) = n"
| "compat_ast_unparse (Parsed t) = t"
| "compat_ast_unparse (Call f as ks) =
     compat_ast_unparse f @ ''('' @
       join '', '' (map compat_ast_unparse as @ map unparse_keyword ks) @ '')''"
| "compat_ast_unparse (Starred e) = ''*'' @ compat_ast_unparse e"
| "compat_ast_unparse (Attribute e a) = compat_ast_unparse e @ ''.'' @ a"
| "compat_ast_unparse (Subscript e k) = compat_ast_unparse e @ ''['' @ compat_ast_unparse k @ '']''"
| "unparse_keyword (Keyword None v) = ''**'' @ compat_ast_unparse v"
| "unparse_keyword (Keyword (Some k) v) = k @ ''='' @ compat_ast_unparse v"

section \<open>Code synthesizer\<close>

text \<open>\<open>_gen_parameter_element\<close>\<close>

definition gen_parameter_element :: "gen_state \<Rightarrow> string \<Rightarrow> error + (py_ast \<times> gen_state)" where
  "gen_parameter_element st name = Inr (Name name, st)"

text \<open>\<open>_gen_constant_element\<close>\<close>

definition gen_constant_element :: "gen_state \<Rightarrow> pyobj \<Rightarrow> error + (py_ast \<times> gen_state)" where
  "gen_constant_element st v =
     (case get_literal_expr v of
        Some expr \<Rightarrow> Inr (Parsed expr, st)
      | None \<Rightarrow>
          (case register_next_id st ''constant'' v of
             (Inl e, _) \<Rightarrow> Inl e
           | (Inr name, st') \<Rightarrow> Inr (Name name, st')))"

text \<open>
  The name of the callable, lines 121 to 124 of \<open>_gen_function_element\<close>: its own
  \<open>__name__\<close> when it has one, a numbered name under the prefix \<open>func\<close> otherwise.
\<close>

definition register_func :: "gen_state \<Rightarrow> pyobj \<Rightarrow> (error + string) \<times> gen_state" where
  "register_func st f =
     (case func_name f of
        Some n \<Rightarrow> register_mangled st n f
      | None \<Rightarrow> register_next_id st ''func'' f)"

text \<open>
  \<open>_gen_plan_element_dispatch\<close>, \<open>_gen_function_element\<close> and \<open>_gen_accessor_element\<close>.
  The part of \<open>_gen_function_element\<close> after the test of line 114 is \<open>gen_call\<close> (lines
  121 to 148), and its loop over the argument slots is \<open>gen_args\<close> (lines 126 to 142).
  The plan is a closed datatype, so the two \<open>raise TypeError\<close> are not reached; the
  lowering raises \<open>NameCollision\<close> from the allocator and \<open>SyntaxError\<close> from the parse
  of the dotted template. The test
  of line 114, \<open>func == as_is_stub\<close> with one argument that is a \<open>PositionalArg\<close>, is the
  first equation of \<open>gen_function_element\<close>; \<open>gen_function_element_source\<close> below states
  it in the form of the source.
\<close>

fun gen_plan_element_dispatch :: "gen_state \<Rightarrow> plan \<Rightarrow> error + (py_ast \<times> gen_state)"
  and gen_function_element :: "gen_state \<Rightarrow> pyobj \<Rightarrow> arg list \<Rightarrow> error + (py_ast \<times> gen_state)"
  and gen_call :: "gen_state \<Rightarrow> pyobj \<Rightarrow> arg list \<Rightarrow> error + (py_ast \<times> gen_state)"
  and gen_args :: "gen_state \<Rightarrow> arg list \<Rightarrow> error + (py_ast list \<times> keyword list \<times> gen_state)"
  and gen_accessor_element :: "gen_state \<Rightarrow> plan \<Rightarrow> accessor \<Rightarrow> error + (py_ast \<times> gen_state)"
where
  "gen_plan_element_dispatch st (ParameterElement name) = gen_parameter_element st name"
| "gen_plan_element_dispatch st (ConstantElement v) = gen_constant_element st v"
| "gen_plan_element_dispatch st (FunctionElement f args) = gen_function_element st f args"
| "gen_plan_element_dispatch st (AccessorElement target acc) = gen_accessor_element st target acc"
| "gen_function_element st f [PositionalArg e] =
     (if f = as_is_stub then gen_plan_element_dispatch st e
      else gen_call st f [PositionalArg e])"
| "gen_function_element st f args = gen_call st f args"
| "gen_call st f args =
     (case register_func st f of
        (Inl e, _) \<Rightarrow> Inl e
      | (Inr name, st1) \<Rightarrow>
          (case gen_args st1 args of
             Inl e \<Rightarrow> Inl e
           | Inr (as, ks, st2) \<Rightarrow> Inr (Call (Name name) as ks, st2)))"
| "gen_args st [] = Inr ([], [], st)"
| "gen_args st (PositionalArg e # rest) =
     (case gen_plan_element_dispatch st e of
        Inl err \<Rightarrow> Inl err
      | Inr (sub_ast, st1) \<Rightarrow>
          (case gen_args st1 rest of
             Inl err \<Rightarrow> Inl err
           | Inr (as, ks, st2) \<Rightarrow> Inr (sub_ast # as, ks, st2)))"
| "gen_args st (KeywordArg key e # rest) =
     (case gen_plan_element_dispatch st e of
        Inl err \<Rightarrow> Inl err
      | Inr (sub_ast, st1) \<Rightarrow>
          (case gen_args st1 rest of
             Inl err \<Rightarrow> Inl err
           | Inr (as, ks, st2) \<Rightarrow> Inr (as, Keyword (Some key) sub_ast # ks, st2)))"
| "gen_args st (UnpackMapping e # rest) =
     (case gen_plan_element_dispatch st e of
        Inl err \<Rightarrow> Inl err
      | Inr (sub_ast, st1) \<Rightarrow>
          (case gen_args st1 rest of
             Inl err \<Rightarrow> Inl err
           | Inr (as, ks, st2) \<Rightarrow> Inr (as, Keyword None sub_ast # ks, st2)))"
| "gen_args st (UnpackIterable e # rest) =
     (case gen_plan_element_dispatch st e of
        Inl err \<Rightarrow> Inl err
      | Inr (sub_ast, st1) \<Rightarrow>
          (case gen_args st1 rest of
             Inl err \<Rightarrow> Inl err
           | Inr (as, ks, st2) \<Rightarrow> Inr (Starred sub_ast # as, ks, st2)))"
| "gen_accessor_element st target acc =
     (case gen_plan_element_dispatch st target of
        Inl err \<Rightarrow> Inl err
      | Inr (target_expr, st1) \<Rightarrow>
          (case acc of
             DescriptorAccessor attr_name \<Rightarrow>
               if isidentifier (String.explode attr_name) then
                 (case parse_attribute_template attr_name of
                    Inl err \<Rightarrow> Inl err
                  | Inr template \<Rightarrow> Inr (ast_substitute template target_expr, st1))
               else
                 Inr (ast_substitute
                        (Call (Name ''getattr'')
                           [Name ''__target_expr__'',
                            Parsed (py_repr_str (String.explode attr_name))] [])
                        target_expr, st1)
           | _ \<Rightarrow>
               (case (case acc of ItemAccessor key \<Rightarrow> get_literal_expr key | _ \<Rightarrow> None) of
                  Some literal_expr \<Rightarrow>
                    Inr (ast_substitute
                           (Subscript (Name ''__target_expr__'') (Parsed (py_repr_str literal_expr)))
                           target_expr, st1)
                | None \<Rightarrow>
                    (case register_next_id st1 ''accessor'' (getter acc) of
                       (Inl err, _) \<Rightarrow> Inl err
                     | (Inr name, st2) \<Rightarrow>
                         Inr (ast_substitute (Call (Name name) [Name ''__target_expr__''] [])
                                target_expr, st2)))))"

text \<open>
  Modelled from the spec: \<open>CodeBuilder\<close> (code_tools/code_builder.py) is not among the
  sources. Section 4.3: one function whose body is exactly \<open>return <lowered root>\<close>,
  under a header with the formal parameters; the lines are joined by newlines and the
  body is indented by four spaces.
\<close>

definition code_builder_string :: "string \<Rightarrow> string list \<Rightarrow> string list \<Rightarrow> string" where
  "code_builder_string header body after =
     join [CHR 0x0A] (header # map (\<lambda>l. ''    '' @ l) body @ after)"

text \<open>
  \<open>BuiltinBroachingCodeGenerator.produce_code\<close>. The state is created on the namespace
  object before \<open>_closure_signature\<close> is added to it, and sees the addition, since both
  are the same object. A \<open>signature\<close> gives the names of its parameters in order
  (\<open>signature.parameters.keys()\<close>) and the text of the signature without annotations
  (\<open>str(no_types_signature)\<close>).
\<close>

definition produce_code ::
  "plan \<Rightarrow> string \<Rightarrow> signature \<Rightarrow> error + (string \<times> (string \<times> pyobj) list)" where
  "produce_code plan closure_name sig =
     (let ctx_ns = BuiltinContextNamespace (parameters sig) in
      case namespace_add ctx_ns ''_closure_signature'' (PySignature sig) of
        Inl e \<Rightarrow> Inl e
      | Inr ctx_ns1 \<Rightarrow>
          (case gen_plan_element_dispatch (GenState ctx_ns1) plan of
             Inl e \<Rightarrow> Inl e
           | Inr (body, st) \<Rightarrow>
               Inr (code_builder_string
                      (''def '' @ closure_name @ no_types_text sig @ '':'')
                      [''return '' @ compat_ast_unparse body]
                      [closure_name @ ''.__signature__ = _closure_signature''],
                    dict (ctx_namespace st))))"

text \<open>\<open>isinstance(arg, PositionalArg)\<close> and the field \<open>element\<close> of an argument slot.\<close>

fun isinstance_PositionalArg :: "arg \<Rightarrow> bool" where
  "isinstance_PositionalArg (PositionalArg e) = True"
| "isinstance_PositionalArg _ = False"

fun element :: "arg \<Rightarrow> plan" where
  "element (PositionalArg e) = e"
| "element (KeywordArg k e) = e"
| "element (UnpackMapping e) = e"
| "element (UnpackIterable e) = e"

section \<open>Sequences of allocator calls\<close>

text \<open>
  A caller of the generator state makes \<open>register_next_id\<close> and \<open>register_mangled\<close>
  calls one after the other on the same state. \<open>run_calls\<close> gives the names that the
  calls return, in order; a call that raises returns no name, and the calls after it
  see the state as it left it.
\<close>

datatype call = RegisterNextId string pyobj | RegisterMangled string pyobj

fun perform :: "gen_state \<Rightarrow> call \<Rightarrow> (error + string) \<times> gen_state" where
  "perform st (RegisterNextId prefix obj) = register_next_id st prefix obj"
| "perform st (RegisterMangled base obj) = register_mangled st base obj"

fun run_calls :: "gen_state \<Rightarrow> call list \<Rightarrow> string list" where
  "run_calls st [] = []"
| "run_calls st (c # cs) =
     (case perform st c of
        (Inl e, st') \<Rightarrow> run_calls st' cs
      | (Inr name, st') \<Rightarrow> name # run_calls st' cs)"

text \<open>
  The namespace of the second state has the bindings of the first, in the same order,
  followed by new ones, and the same occupied names.
\<close>

definition extends :: "gen_state \<Rightarrow> gen_state \<Rightarrow> bool" where
  "extends st st' \<longleftrightarrow>
     (\<exists>new. dict (ctx_namespace st') = dict (ctx_namespace st) @ new)
     \<and> occupied (ctx_namespace st') = occupied (ctx_namespace st)"

section \<open>Resolution\<close>

text \<open>
  Modelled from the spec: \<open>Mediator.resolve\<close>, \<open>Provider\<close> and the request checkers
  (provider/essential.py, provider/provider.py) are not among the sources; only their
  names are, in the imports of provider/__init__.py. Section 4.1: a provider, asked for
  a request, answers, refuses with a reason, or raises an error of its own; it is
  guarded by a request checker, a predicate on requests. The mediator goes through the
  providers in order; for each one whose checker accepts the request it invokes the
  provider; on refusal it goes on to the next accepting provider, on success it returns
  at once, and an error that is not a refusal is propagated at once. When the chain is
  exhausted it fails with \<open>NoProviderFound\<close>. The result comes with the positions of the
  providers invoked, in order of invocation.
\<close>

datatype ('a, 'e) outcome = Answer 'a | Refused string | Raised 'e

record ('r, 'a, 'e) provider =
  checker :: "'r \<Rightarrow> bool"
  attempt :: "'r \<Rightarrow> ('a, 'e) outcome"

datatype 'e resolve_error = NoProviderFound | ProviderError 'e

text \<open>
  Modelled from the spec: the loop of \<open>Mediator.resolve\<close> over the providers from
  position \<open>i\<close> on (section 4.1).
\<close>

fun resolve_from ::
  "nat \<Rightarrow> ('r, 'a, 'e) provider list \<Rightarrow> 'r \<Rightarrow> ('e resolve_error + 'a) \<times> nat list" where
  "resolve_from i [] request = (Inl NoProviderFound, [])"
| "resolve_from i (p # ps) request =
     (if checker p request then
        (case attempt p request of
           Answer a \<Rightarrow> (Inr a, [i])
         | Refused reason \<Rightarrow>
             (let rest = resolve_from (Suc i) ps request in (fst rest, i # snd rest))
         | Raised e \<Rightarrow> (Inl (ProviderError e), [i]))
      else resolve_from (Suc i) ps request)"

text \<open>Modelled from the spec: \<open>Mediator.resolve(request)\<close> (section 4.1).\<close>

definition resolve ::
  "('r, 'a, 'e) provider list \<Rightarrow> 'r \<Rightarrow> ('e resolve_error + 'a) \<times> nat list" where
  "resolve chain request = resolve_from 0 chain request"

text \<open>The provider's outcome for the request is a refusal.\<close>

definition refuses :: "('r, 'a, 'e) provider \<Rightarrow> 'r \<Rightarrow> bool" where
  "refuses p request \<longleftrightarrow> (case attempt p request of Refused reason \<Rightarrow> True | _ \<Rightarrow> False)"

text \<open>
  A chain of three providers on numbered requests: the first accepts request 0 only;
  the second accepts every other request, answers request 1, refuses request 2 and
  raises an error of its own on the others; the third accepts requests above 1 and
  refuses request 2.
\<close>

definition example_chain :: "(nat, nat, string) provider list" where
  "example_chain =
     [\<lparr>checker = (\<lambda>r. r = 0), attempt = (\<lambda>r. Answer 10)\<rparr>,
      \<lparr>checker = (\<lambda>r. 0 < r), attempt = (\<lambda>r. if r = 1 then Answer 11 else if r = 2 then Refused ''no'' else Raised ''defect'')\<rparr>,
      \<lparr>checker = (\<lambda>r. 1 < r), attempt = (\<lambda>r. if r = 2 then Refused ''no'' else Answer 12)\<rparr>]"

section \<open>Facts about the namespace and the allocator\<close>

lemma namespace_add_Inr:
  "namespace_add ns name obj = Inr ns' \<longleftrightarrow>
     \<not> namespace_contains ns name \<and> ns' = ns\<lparr>dict := dict ns @ [(name, obj)]\<rparr>"
  by (auto simp: namespace_add_def)

lemma probe_free:
  "\<not> namespace_contains ns (mangled base i) \<Longrightarrow> probe ns base i = mangled base i"
  by (simp add: probe.simps [of ns base i])

lemma register_mangled_bound:
  "namespace_contains (ctx_namespace st) base \<Longrightarrow>
   register_mangled st base obj = (Inl NameCollision, st)"
  by (simp add: register_mangled_def namespace_add_def)

lemma register_mangled_free:
  "\<not> namespace_contains (ctx_namespace st) base \<Longrightarrow>
   register_mangled st base obj =
     (Inr base, st\<lparr>ctx_namespace := (ctx_namespace st)\<lparr>dict := dict (ctx_namespace st) @ [(base, obj)]\<rparr>\<rparr>)"
  by (simp add: register_mangled_def namespace_add_def)

lemma register_mangled_Inr:
  assumes "register_mangled st base obj = (Inr name, st')"
  shows "name = base" and "\<not> namespace_contains (ctx_namespace st) base"
    and "st' = st\<lparr>ctx_namespace := (ctx_namespace st)\<lparr>dict := dict (ctx_namespace st) @ [(base, obj)]\<rparr>\<rparr>"
  using assms by (auto simp: register_mangled_def namespace_add_def split: if_splits)

lemma mangled_f_1: "mangled ''f'' 1 = ''f_1''"
  by code_simp

lemma py_repr_int_1: "py_repr_int 1 = ''1''"
  by code_simp

lemma py_repr_str_1: "py_repr_str ''1'' = [CHR 0x27, CHR ''1'', CHR 0x27]"
  by code_simp

lemma py_repr_str_123bad:
  "py_repr_str ''123bad'' = [CHR 0x27] @ ''123bad'' @ [CHR 0x27]"
  by code_simp

lemma isidentifier_value: "isidentifier ''value''"
  by (simp add: xid_start_def xid_continue_def)

lemma not_isidentifier_123bad: "\<not> isidentifier ''123bad''"
  by (simp add: xid_start_def xid_continue_def)

lemma py_repr_int_42: "py_repr_int 42 = ''42''"
  by code_simp

lemma mangled_constant_0: "mangled ''constant'' 0 = ''constant_0''"
  by code_simp

lemma extends_refl [simp]: "extends st st"
  by (simp add: extends_def)

lemma extends_trans: "extends a b \<Longrightarrow> extends b c \<Longrightarrow> extends a c"
  by (auto simp: extends_def)

lemma extends_contains:
  "extends st st' \<Longrightarrow> namespace_contains (ctx_namespace st) n \<Longrightarrow> namespace_contains (ctx_namespace st') n"
  by (auto simp: extends_def namespace_contains_def)

lemma extends_map_of:
  "extends st st' \<Longrightarrow> map_of (dict (ctx_namespace st)) n = Some v \<Longrightarrow>
   map_of (dict (ctx_namespace st')) n = Some v"
  by (auto simp: extends_def)

lemma register_mangled_extends:
  "register_mangled st base obj = (r, st') \<Longrightarrow> extends st st'"
  by (auto simp: register_mangled_def namespace_add_def extends_def Let_def split: if_splits)

lemma register_next_id_extends:
  "register_next_id st prefix obj = (r, st') \<Longrightarrow> extends st st'"
  by (auto simp: register_next_id_def Let_def extends_def dest!: register_mangled_extends)

lemma register_mangled_fresh:
  assumes "register_mangled st base obj = (Inr name, st')"
  shows "\<not> namespace_contains (ctx_namespace st) name"
    and "namespace_contains (ctx_namespace st') name"
    and "map_of (dict (ctx_namespace st')) name = Some obj"
proof -
  note r = register_mangled_Inr [OF assms]
  show "\<not> namespace_contains (ctx_namespace st) name" using r by simp
  show "namespace_contains (ctx_namespace st') name"
    using r by (simp add: namespace_contains_def)
  have "map_of (dict (ctx_namespace st)) name = None"
    using r(1,2) by (simp add: namespace_contains_def map_of_eq_None_iff)
  then show "map_of (dict (ctx_namespace st')) name = Some obj"
    using r by (simp add: map_add_def)
qed

lemma register_next_id_fresh:
  assumes "register_next_id st prefix obj = (Inr name, st')"
  shows "\<not> namespace_contains (ctx_namespace st) name"
    and "namespace_contains (ctx_namespace st') name"
    and "map_of (dict (ctx_namespace st')) name = Some obj"
  using assms register_mangled_fresh
    [of "st\<lparr>prefix_counter := (prefix_counter st)(prefix := prefix_counter st prefix + 1)\<rparr>"
        "mangled prefix (prefix_counter st prefix)" obj name st']
  by (simp_all add: register_next_id_def Let_def)

lemma register_func_extends:
  "register_func st f = (r, st') \<Longrightarrow> extends st st'"
  by (auto simp: register_func_def split: option.splits
      dest: register_mangled_extends register_next_id_extends)

lemma register_func_fresh:
  assumes "register_func st f = (Inr name, st')"
  shows "\<not> namespace_contains (ctx_namespace st) name"
    and "map_of (dict (ctx_namespace st')) name = Some f"
  using assms register_mangled_fresh register_next_id_fresh
  by (auto simp: register_func_def split: option.splits)

lemma perform_extends: "perform st c = (r, st') \<Longrightarrow> extends st st'"
  by (cases c) (auto dest: register_mangled_extends register_next_id_extends)

lemma perform_fresh:
  assumes "perform st c = (Inr name, st')"
  shows "\<not> namespace_contains (ctx_namespace st) name"
    and "namespace_contains (ctx_namespace st') name"
  using assms register_mangled_fresh(1,2) register_next_id_fresh(1,2)
  by (cases c; auto)+

section \<open>The generator only adds bindings\<close>

lemma gen_constant_element_extends:
  "gen_constant_element st v = Inr (a, st') \<Longrightarrow> extends st st'"
  by (auto simp: gen_constant_element_def split: option.splits prod.splits sum.splits
      dest: register_next_id_extends)

lemma gen_extends_aux:
  "(\<forall>a st'. gen_plan_element_dispatch st e = Inr (a, st') \<longrightarrow> extends st st')"
  "(\<forall>a st'. gen_function_element st2 f2 args2 = Inr (a, st') \<longrightarrow> extends st2 st')"
  "(\<forall>a st'. gen_call st3 f3 args3 = Inr (a, st') \<longrightarrow> extends st3 st')"
  "(\<forall>as ks st'. gen_args st4 args4 = Inr (as, ks, st') \<longrightarrow> extends st4 st')"
  "(\<forall>a st'. gen_accessor_element st5 target acc = Inr (a, st') \<longrightarrow> extends st5 st')"
proof (induction st e and st2 f2 args2 and st3 f3 args3 and st4 args4 and st5 target acc
    rule: gen_plan_element_dispatch_gen_function_element_gen_call_gen_args_gen_accessor_element.induct)
  case (1 st name)
  then show ?case by (simp add: gen_parameter_element_def)
next
  case (2 st v)
  then show ?case by (auto dest: gen_constant_element_extends)
next
  case (7 st f args)
  show ?case
  proof (intro allI impI)
    fix a st'
    assume r: "gen_call st f args = Inr (a, st')"
    then obtain name st1 as ks where
      reg: "register_func st f = (Inr name, st1)" and
      args: "gen_args st1 args = Inr (as, ks, st')"
      by (auto split: prod.splits sum.splits)
    from reg have "extends st st1" by (rule register_func_extends)
    moreover from 7 [of "Inr name" st1 name] reg args have "extends st1 st'" by simp
    ultimately show "extends st st'" by (rule extends_trans)
  qed
next
  case (9 st e rest)
  then show ?case
    by (auto split: sum.splits prod.splits intro: extends_trans)
next
  case (10 st key e rest)
  then show ?case
    by (auto split: sum.splits prod.splits intro: extends_trans)
next
  case (11 st e rest)
  then show ?case
    by (auto split: sum.splits prod.splits intro: extends_trans)
next
  case (12 st e rest)
  then show ?case
    by (auto split: sum.splits prod.splits intro: extends_trans)
next
  case (13 st target acc)
  show ?case
  proof (intro allI impI)
    fix a st'
    assume r: "gen_accessor_element st target acc = Inr (a, st')"
    then obtain te st1 where t: "gen_plan_element_dispatch st target = Inr (te, st1)"
      by (auto split: sum.splits)
    with 13 have e1: "extends st st1" by simp
    from r t have "extends st1 st'"
      by (auto split: accessor.splits if_splits option.splits prod.splits sum.splits
          dest: register_next_id_extends)
    with e1 show "extends st st'" by (rule extends_trans)
  qed
qed auto

lemma gen_plan_element_dispatch_extends:
  "gen_plan_element_dispatch st e = Inr (a, st') \<Longrightarrow> extends st st'"
  using gen_extends_aux(1) by blast

lemma gen_args_extends:
  "gen_args st args = Inr (as, ks, st') \<Longrightarrow> extends st st'"
  using gen_extends_aux(4) by blast

lemma gen_args_length:
  "gen_args st args = Inr (as, ks, st') \<Longrightarrow> length as + length ks = length args"
proof (induction args arbitrary: st as ks)
  case Nil
  then show ?case by simp
next
  case (Cons a args)
  then show ?case
    by (cases a) (auto split: sum.splits prod.splits)
qed

lemma gen_function_element_source:
  "gen_function_element st f args =
     (if f = as_is_stub \<and> length args = 1 \<and> isinstance_PositionalArg (args ! 0)
      then gen_plan_element_dispatch st (element (args ! 0))
      else gen_call st f args)"
proof (cases args)
  case Nil
  then show ?thesis by simp
next
  case (Cons a rest)
  show ?thesis
  proof (cases rest)
    case Nil
    with Cons show ?thesis by (cases a) simp_all
  next
    case (Cons b rest')
    with \<open>args = a # rest\<close> show ?thesis by simp
  qed
qed

lemma gen_call_result:
  assumes "gen_call st f args = Inr (a, st')"
  shows "\<exists>name as ks. a = Call (Name name) as ks
           \<and> length as + length ks = length args
           \<and> \<not> namespace_contains (ctx_namespace st) name
           \<and> map_of (dict (ctx_namespace st')) name = Some f"
proof -
  from assms obtain name st1 as ks where
    reg: "register_func st f = (Inr name, st1)" and
    args: "gen_args st1 args = Inr (as, ks, st')" and
    a: "a = Call (Name name) as ks"
    by (auto split: prod.splits sum.splits)
  from args have "extends st1 st'" by (rule gen_args_extends)
  with register_func_fresh(2) [OF reg] have "map_of (dict (ctx_namespace st')) name = Some f"
    by (auto dest: extends_map_of)
  with a gen_args_length [OF args] register_func_fresh(1) [OF reg] show ?thesis by blast
qed

lemma produce_code_literal:
  assumes "''_closure_signature'' \<notin> set (parameters sig)" and "get_literal_expr v = Some expr"
  shows "produce_code (ConstantElement v) closure_name sig =
           Inr (code_builder_string (''def '' @ closure_name @ no_types_text sig @ '':'')
                  [''return '' @ expr] [closure_name @ ''.__signature__ = _closure_signature''],
                [(''_closure_signature'', PySignature sig)])"
  using assms
  by (simp add: produce_code_def BuiltinContextNamespace_def namespace_add_def
      namespace_contains_def GenState_def gen_constant_element_def)

lemma produce_code_captured:
  assumes "''_closure_signature'' \<notin> set (parameters sig)" and "get_literal_expr v = None"
    and "''constant_0'' \<notin> set (parameters sig)"
  shows "produce_code (ConstantElement v) closure_name sig =
           Inr (code_builder_string (''def '' @ closure_name @ no_types_text sig @ '':'')
                  [''return constant_0''] [closure_name @ ''.__signature__ = _closure_signature''],
                [(''_closure_signature'', PySignature sig), (''constant_0'', v)])"
  using assms
  by (simp add: produce_code_def BuiltinContextNamespace_def namespace_add_def
      namespace_contains_def GenState_def gen_constant_element_def register_next_id_def
      register_mangled_def mangled_constant_0 Let_def)

section \<open>The allocator on a name that is taken\<close>

text \<open>
  Claim C1. When the preferred name is free, \<open>register_mangled\<close> binds it and returns it
  (\<open>register_mangled_free\<close>). When it is taken, the claim has the first free name among
  \<open>base_1\<close>, \<open>base_2\<close>, ... bound to the object and returned. The code finds that name
  but then calls \<open>add\<close> on \<open>base\<close> again (line 54), which is taken: with \<open>f\<close> bound,
  \<open>register_mangled('f', obj)\<close> raises \<open>NameCollision\<close> and leaves the namespace as it
  was, although the probe has found \<open>f_1\<close> free. So does \<open>produce_code\<close> on a plan that
  calls two functions of the same \<open>__name__\<close>, one inside the other.
\<close>

theorem register_mangled_collision_raises:
  "register_mangled (GenState \<lparr>dict = [(''f'', PyOpaque 1)], occupied = []\<rparr>) ''f'' (PyOpaque 2)
     = (Inl NameCollision, GenState \<lparr>dict = [(''f'', PyOpaque 1)], occupied = []\<rparr>)
   \<and> probe \<lparr>dict = [(''f'', PyOpaque 1)], occupied = []\<rparr> ''f'' 1 = ''f_1''
   \<and> produce_code
        (FunctionElement (PyFunction (Some ''f'') 1)
           [PositionalArg (FunctionElement (PyFunction (Some ''f'') 2)
              [PositionalArg (ParameterElement ''x'')])])
        ''closure'' (Signature [''x''] ''(x)'')
      = Inl NameCollision"
proof (intro conjI)
  show "register_mangled (GenState \<lparr>dict = [(''f'', PyOpaque 1)], occupied = []\<rparr>) ''f'' (PyOpaque 2)
     = (Inl NameCollision, GenState \<lparr>dict = [(''f'', PyOpaque 1)], occupied = []\<rparr>)"
    by (simp add: register_mangled_def namespace_add_def namespace_contains_def GenState_def)
  have "\<not> namespace_contains \<lparr>dict = [(''f'', PyOpaque 1)], occupied = []\<rparr> (mangled ''f'' 1)"
    unfolding mangled_f_1 by (simp add: namespace_contains_def)
  then have "probe \<lparr>dict = [(''f'', PyOpaque 1)], occupied = []\<rparr> ''f'' 1 = mangled ''f'' 1"
    by (rule probe_free)
  then show "probe \<lparr>dict = [(''f'', PyOpaque 1)], occupied = []\<rparr> ''f'' 1 = ''f_1''"
    unfolding mangled_f_1 .
  show "produce_code
        (FunctionElement (PyFunction (Some ''f'') 1)
           [PositionalArg (FunctionElement (PyFunction (Some ''f'') 2)
              [PositionalArg (ParameterElement ''x'')])])
        ''closure'' (Signature [''x''] ''(x)'')
      = Inl NameCollision"
    by (simp add: produce_code_def BuiltinContextNamespace_def namespace_add_def
        namespace_contains_def GenState_def as_is_stub_def register_func_def
        register_mangled_def gen_parameter_element_def)
qed

section \<open>Constants at the root\<close>

text \<open>
  Claim C2, as stated, fails: the capture table of a plan whose root is the constant 42
  is not empty, since \<open>produce_code\<close> binds \<open>_closure_signature\<close> before it lowers
  anything. Here with the closure name \<open>f\<close> and no parameters.
\<close>

theorem constant_42_capture_table_not_empty:
  "produce_code (ConstantElement (PyInt 42)) ''f'' (Signature [] ''()'')
     = Inr (''def f():'' @ [CHR 0x0A] @ ''    return 42'' @ [CHR 0x0A] @
              ''f.__signature__ = _closure_signature'',
            [(''_closure_signature'', PySignature (Signature [] ''()''))])
   \<and> [(''_closure_signature'', PySignature (Signature [] ''()''))] \<noteq> []"
  by (simp add: produce_code_literal [where expr = "''42''"] py_repr_int_42 code_builder_string_def)

text \<open>
  Claim C2, amended. When \<open>_closure_signature\<close> is not a parameter name, synthesizing
  the constant 42 gives a body \<open>return 42\<close> and a capture table whose only entry is
  \<open>_closure_signature\<close>, bound to the signature; synthesizing a constant without a
  literal rendering gives, when \<open>constant_0\<close> is not a parameter name either, a capture
  table with exactly one more entry, \<open>constant_0\<close> bound to that object, and the body
  \<open>return constant_0\<close>.
\<close>

theorem constant_literal_round_trip:
  assumes "''_closure_signature'' \<notin> set (parameters sig)"
  shows "produce_code (ConstantElement (PyInt 42)) closure_name sig =
           Inr (code_builder_string (''def '' @ closure_name @ no_types_text sig @ '':'')
                  [''return 42''] [closure_name @ ''.__signature__ = _closure_signature''],
                [(''_closure_signature'', PySignature sig)])
       \<and> (get_literal_expr v = None \<and> ''constant_0'' \<notin> set (parameters sig) \<longrightarrow>
            produce_code (ConstantElement v) closure_name sig =
              Inr (code_builder_string (''def '' @ closure_name @ no_types_text sig @ '':'')
                     [''return constant_0''] [closure_name @ ''.__signature__ = _closure_signature''],
                   [(''_closure_signature'', PySignature sig), (''constant_0'', v)]))"
  using assms produce_code_literal [of sig "PyInt 42" "''42''" closure_name]
    produce_code_captured [of sig v closure_name]
  by (simp add: py_repr_int_42)

theorem constant_literal_round_trip_witness:
  "''_closure_signature'' \<notin> set (parameters (Signature [''x''] ''(x)''))
   \<and> produce_code (ConstantElement (PyInt 42)) ''f'' (Signature [''x''] ''(x)'') =
       Inr (''def f(x):'' @ [CHR 0x0A] @ ''    return 42'' @ [CHR 0x0A] @
              ''f.__signature__ = _closure_signature'',
            [(''_closure_signature'', PySignature (Signature [''x''] ''(x)''))])
   \<and> get_literal_expr (PyOpaque 7) = None
   \<and> ''constant_0'' \<notin> set (parameters (Signature [''x''] ''(x)''))
   \<and> produce_code (ConstantElement (PyOpaque 7)) ''f'' (Signature [''x''] ''(x)'') =
       Inr (''def f(x):'' @ [CHR 0x0A] @ ''    return constant_0'' @ [CHR 0x0A] @
              ''f.__signature__ = _closure_signature'',
            [(''_closure_signature'', PySignature (Signature [''x''] ''(x)'')),
             (''constant_0'', PyOpaque 7)])"
proof -
  have h: "''_closure_signature'' \<notin> set (parameters (Signature [''x''] ''(x)''))"
    by simp
  from constant_literal_round_trip [OF h, of "''f''" "PyOpaque 7"] show ?thesis
    by (simp add: code_builder_string_def)
qed

section \<open>Hygienic naming\<close>

lemma run_calls_contained:
  "n \<in> set (run_calls st cs) \<Longrightarrow> \<not> namespace_contains (ctx_namespace st) n"
proof (induction cs arbitrary: st)
  case Nil
  then show ?case by simp
next
  case (Cons c cs)
  obtain r st' where p: "perform st c = (r, st')" by (cases "perform st c")
  then have ext: "extends st st'" by (rule perform_extends)
  show ?case
  proof (cases r)
    case (Inl e)
    with Cons.prems p have "n \<in> set (run_calls st' cs)" by simp
    then have "\<not> namespace_contains (ctx_namespace st') n" by (rule Cons.IH)
    with ext show ?thesis by (auto dest: extends_contains)
  next
    case (Inr name)
    with Cons.prems p have "n = name \<or> n \<in> set (run_calls st' cs)" by auto
    then show ?thesis
    proof
      assume "n = name"
      with p Inr show ?thesis by (auto dest: perform_fresh(1))
    next
      assume "n \<in> set (run_calls st' cs)"
      then have "\<not> namespace_contains (ctx_namespace st') n" by (rule Cons.IH)
      with ext show ?thesis by (auto dest: extends_contains)
    qed
  qed
qed

lemma run_calls_distinct: "distinct (run_calls st cs)"
proof (induction cs arbitrary: st)
  case Nil
  then show ?case by simp
next
  case (Cons c cs)
  obtain r st' where p: "perform st c = (r, st')" by (cases "perform st c")
  show ?case
  proof (cases r)
    case (Inl e)
    with p Cons.IH show ?thesis by simp
  next
    case (Inr name)
    with p have "namespace_contains (ctx_namespace st') name" by (auto dest: perform_fresh(2))
    then have "name \<notin> set (run_calls st' cs)" by (auto dest: run_calls_contained)
    with p Inr Cons.IH show ?thesis by simp
  qed
qed

lemma run_calls_example:
  "run_calls (GenState (BuiltinContextNamespace [''x'']))
     [RegisterNextId ''constant'' (PyOpaque 1), RegisterMangled ''f'' (PyOpaque 2),
      RegisterNextId ''constant'' (PyOpaque 3), RegisterMangled ''x'' (PyOpaque 4),
      RegisterMangled ''f'' (PyOpaque 5), RegisterNextId ''f'' (PyOpaque 6)]
   = [''constant_0'', ''f'', ''constant_1'', ''f_0'']"
  by code_simp

text \<open>
  Claim C3. For every generator state and every sequence of \<open>register_next_id\<close> and
  \<open>register_mangled\<close> calls made on it, the names returned are pairwise distinct, so
  each differs from all names returned before it, and none of them is an occupied name,
  that is, a parameter name of the target signature. None is a name bound beforehand
  either.
\<close>

theorem hygienic_naming:
  "distinct (run_calls st calls)
   \<and> set (run_calls st calls) \<inter> set (occupied (ctx_namespace st)) = {}
   \<and> set (run_calls st calls) \<inter> set (map fst (dict (ctx_namespace st))) = {}"
  using run_calls_distinct [of st calls] run_calls_contained [of _ st calls]
  by (auto simp: namespace_contains_def)

section \<open>Item accessors\<close>

lemma item_accessor_literal:
  assumes "gen_plan_element_dispatch st target = Inr (target_expr, st1)"
    and "get_literal_expr key = Some literal_expr"
  shows "gen_plan_element_dispatch st (AccessorElement target (ItemAccessor key))
           = Inr (Subscript target_expr (Parsed (py_repr_str literal_expr)), st1)"
  using assms by simp

lemma item_accessor_captured:
  assumes "gen_plan_element_dispatch st target = Inr (target_expr, st1)"
    and "get_literal_expr key = None"
    and "register_next_id st1 ''accessor'' (PyItemGetter key) = (Inr name, st2)"
  shows "gen_plan_element_dispatch st (AccessorElement target (ItemAccessor key))
           = Inr (Call (Name name) [target_expr] [], st2)"
proof -
  from assms(3) have "name = mangled ''accessor'' (prefix_counter st1 ''accessor'')"
    by (auto simp: register_next_id_def Let_def dest: register_mangled_Inr(1))
  then have "name \<noteq> ''__target_expr__''"
    by (simp add: mangled_def)
  with assms show ?thesis by simp
qed

text \<open>
  Claim C4. For an item accessor whose key has a literal rendering, the claim has the
  key rendered as that literal: the integer key 1 gives \<open><target>[1]\<close>. The code puts
  the \<open>repr\<close> of the literal's text into the template (\<open>{literal_expr!r}\<close>, line 167),
  so the key of the emitted indexing is the string \<open>'1'\<close>: for the accessor of key 1 on
  the parameter \<open>x\<close> it emits \<open>x['1']\<close>, not \<open>x[1]\<close>.
\<close>

theorem item_accessor_literal_key_quoted:
  "gen_plan_element_dispatch st (AccessorElement (ParameterElement ''x'') (ItemAccessor (PyInt 1)))
     = Inr (Subscript (Name ''x'') (Parsed [CHR 0x27, CHR ''1'', CHR 0x27]), st)
   \<and> compat_ast_unparse (Subscript (Name ''x'') (Parsed [CHR 0x27, CHR ''1'', CHR 0x27]))
     = ''x['' @ [CHR 0x27] @ ''1'' @ [CHR 0x27] @ '']''
   \<and> Subscript (Name ''x'') (Parsed [CHR 0x27, CHR ''1'', CHR 0x27]) \<noteq> Subscript (Name ''x'') (Parsed ''1'')"
  by (simp add: gen_parameter_element_def py_repr_int_1 py_repr_str_1)

section \<open>Identity passthrough\<close>

text \<open>
  Claim C5. A call of \<open>as_is_stub\<close> whose only argument slot is positional and holds a
  parameter reference lowers to the expression the bare parameter reference lowers to,
  the parameter's own identifier, and leaves the generator state, so the capture table,
  as it was; \<open>produce_code\<close> gives the same text and capture table for both plans.
\<close>

theorem identity_passthrough_parameter:
  "gen_plan_element_dispatch st (FunctionElement as_is_stub [PositionalArg (ParameterElement name)])
     = gen_plan_element_dispatch st (ParameterElement name)
   \<and> gen_plan_element_dispatch st (FunctionElement as_is_stub [PositionalArg (ParameterElement name)])
     = Inr (Name name, st)
   \<and> produce_code (FunctionElement as_is_stub [PositionalArg (ParameterElement name)]) closure_name sig
     = produce_code (ParameterElement name) closure_name sig"
  by (simp add: gen_parameter_element_def produce_code_def split: sum.splits)

section \<open>Named-member accessors\<close>

lemma explode_value: "String.explode (STR ''value'') = ''value''"
  by code_simp

lemma explode_123bad: "String.explode (STR ''123bad'') = ''123bad''"
  by code_simp

lemma explode_class: "String.explode (STR ''class'') = ''class''"
  by code_simp

lemma iskeyword_isidentifier: "iskeyword s \<Longrightarrow> isidentifier s"
  by (auto simp: iskeyword_def kwlist_def xid_start_def xid_continue_def)

lemma accessor_dotted:
  assumes "gen_plan_element_dispatch st target = Inr (target_expr, st1)"
    and "isidentifier (String.explode attr_name)"
    and "\<not> iskeyword (String.explode attr_name)"
  shows "gen_plan_element_dispatch st (AccessorElement target (DescriptorAccessor attr_name))
           = Inr (Attribute target_expr (String.explode attr_name), st1)"
  using assms by (simp add: parse_attribute_template_def)

lemma accessor_dynamic:
  assumes "gen_plan_element_dispatch st target = Inr (target_expr, st1)"
    and "\<not> isidentifier (String.explode attr_name)"
  shows "gen_plan_element_dispatch st (AccessorElement target (DescriptorAccessor attr_name))
           = Inr (Call (Name ''getattr'')
                    [target_expr, Parsed (py_repr_str (String.explode attr_name))] [], st1)"
  using assms by simp

lemma accessor_keyword:
  assumes "gen_plan_element_dispatch st target = Inr (target_expr, st1)"
    and "iskeyword (String.explode attr_name)"
  shows "gen_plan_element_dispatch st (AccessorElement target (DescriptorAccessor attr_name))
           = Inl SyntaxError"
  using assms iskeyword_isidentifier [of "String.explode attr_name"]
  by (simp add: parse_attribute_template_def)

lemma accessor_value_and_123bad:
  "gen_plan_element_dispatch st
     (AccessorElement (ParameterElement ''x'') (DescriptorAccessor (STR ''value'')))
     = Inr (Attribute (Name ''x'') ''value'', st)
   \<and> gen_plan_element_dispatch st
       (AccessorElement (ParameterElement ''x'') (DescriptorAccessor (STR ''123bad'')))
     = Inr (Call (Name ''getattr'') [Name ''x'', Parsed ([CHR 0x27] @ ''123bad'' @ [CHR 0x27])] [], st)"
proof -
  have h: "gen_plan_element_dispatch st (ParameterElement ''x'') = Inr (Name ''x'', st)"
    by (simp add: gen_parameter_element_def)
  have k: "\<not> iskeyword ''value''"
    by (simp add: iskeyword_def kwlist_def)
  from accessor_dotted [OF h, of "STR ''value''"] isidentifier_value k
    accessor_dynamic [OF h, of "STR ''123bad''"] not_isidentifier_123bad
  show ?thesis
    by (simp add: explode_value explode_123bad py_repr_str_123bad)
qed

text \<open>
  Claim C6. An accessor node with a descriptor accessor is to lower to the dotted member
  \<open><target>.<name>\<close> when the attribute name is a syntactically valid identifier, and
  to the call \<open>getattr(<target>, '<name>')\<close>, never to dotted syntax, when it is not.
  The code does so for \<open>value\<close> and for \<open>123bad\<close> (\<open>accessor_value_and_123bad\<close>), but its
  test is \<open>str.isidentifier\<close> alone (line 153), which the reserved words pass: for the
  attribute name \<open>class\<close> it takes the dotted branch, and the text
  \<open>__target_expr__.class\<close> does not parse, so the lowering raises \<open>SyntaxError\<close> where
  the claim has a \<open>getattr\<close> call.
\<close>

theorem accessor_keyword_name_raises:
  "isidentifier (String.explode (STR ''class''))
   \<and> iskeyword (String.explode (STR ''class''))
   \<and> gen_plan_element_dispatch st
        (AccessorElement (ParameterElement ''x'') (DescriptorAccessor (STR ''class'')))
      = Inl SyntaxError"
proof -
  have h: "gen_plan_element_dispatch st (ParameterElement ''x'') = Inr (Name ''x'', st)"
    by (simp add: gen_parameter_element_def)
  have k: "iskeyword (String.explode (STR ''class''))"
    by (simp add: explode_class iskeyword_def kwlist_def)
  from k have "isidentifier (String.explode (STR ''class''))"
    by (rule iskeyword_isidentifier)
  with k accessor_keyword [OF h k] show ?thesis by simp
qed

section \<open>Resolution: first match wins\<close>

lemma resolve_from_first_accept:
  "i < length ps \<Longrightarrow> checker (ps ! i) request \<Longrightarrow> \<forall>j<i. \<not> checker (ps ! j) request \<Longrightarrow>
   attempt (ps ! i) request = Answer a \<Longrightarrow> resolve_from k ps request = (Inr a, [k + i])"
proof (induction ps arbitrary: i k)
  case Nil
  then show ?case by simp
next
  case (Cons p ps)
  show ?case
  proof (cases i)
    case 0
    with Cons.prems show ?thesis by simp
  next
    case (Suc i')
    with Cons.prems have no: "\<not> checker p request" by auto
    from Suc Cons.prems have "resolve_from (Suc k) ps request = (Inr a, [Suc k + i'])"
      by (intro Cons.IH) auto
    with no Suc show ?thesis by simp
  qed
qed

lemma resolve_from_all_refuse:
  "\<forall>p \<in> set ps. checker p request \<longrightarrow> refuses p request \<Longrightarrow>
   fst (resolve_from k ps request) = Inl NoProviderFound"
proof (induction ps arbitrary: k)
  case Nil
  then show ?case by simp
next
  case (Cons p ps)
  then show ?case
    by (auto simp: refuses_def Let_def split: outcome.splits)
qed

lemma resolve_from_raised:
  "i < length ps \<Longrightarrow> checker (ps ! i) request \<Longrightarrow> attempt (ps ! i) request = Raised e \<Longrightarrow>
   \<forall>j<i. checker (ps ! j) request \<longrightarrow> refuses (ps ! j) request \<Longrightarrow>
   fst (resolve_from k ps request) = Inl (ProviderError e)
   \<and> (\<forall>n \<in> set (snd (resolve_from k ps request)). n \<le> k + i)"
proof (induction ps arbitrary: i k)
  case Nil
  then show ?case by simp
next
  case (Cons p ps)
  show ?case
  proof (cases i)
    case 0
    with Cons.prems show ?thesis by simp
  next
    case (Suc i')
    with Cons.prems have hd: "checker p request \<longrightarrow> refuses p request" by auto
    from Suc Cons.prems
    have IH: "fst (resolve_from (Suc k) ps request) = Inl (ProviderError e)
      \<and> (\<forall>n \<in> set (snd (resolve_from (Suc k) ps request)). n \<le> Suc k + i')"
      by (intro Cons.IH) auto
    with hd Suc show ?thesis
      by (auto simp: refuses_def Let_def split: outcome.splits)
  qed
qed

text \<open>
  Claim C7. If the provider at position \<open>i\<close> is the first of the chain whose checker
  accepts the request, and it returns an answer, then \<open>resolve\<close> returns that answer,
  and the provider at \<open>i\<close> is the only one invoked: none after it is.
\<close>

theorem resolve_first_match_wins:
  assumes "i < length chain" and "checker (chain ! i) request"
    and "\<forall>j<i. \<not> checker (chain ! j) request"
    and "attempt (chain ! i) request = Answer a"
  shows "resolve chain request = (Inr a, [i])"
  using resolve_from_first_accept [OF assms, of 0] by (simp add: resolve_def)

theorem resolve_first_match_wins_witness:
  "1 < length example_chain \<and> checker (example_chain ! 1) 1
   \<and> \<not> checker (example_chain ! 0) 1
   \<and> attempt (example_chain ! 1) 1 = Answer 11
   \<and> resolve example_chain 1 = (Inr 11, [1])"
proof -
  have h: "1 < length example_chain" "checker (example_chain ! 1) 1"
    "\<forall>j<1. \<not> checker (example_chain ! j) 1" "attempt (example_chain ! 1) 1 = Answer 11"
    by (simp_all add: example_chain_def)
  from resolve_first_match_wins [OF h] h show ?thesis by simp
qed

text \<open>
  Claim C8. If every provider whose checker accepts the request refuses it, \<open>resolve\<close>
  fails with \<open>NoProviderFound\<close>. If a provider that is reached (every accepting provider
  before it has refused) raises an error that is not a refusal, \<open>resolve\<close> fails with
  that very error, and no provider after it is invoked.
\<close>

theorem resolve_failure:
  "((\<forall>p \<in> set chain. checker p request \<longrightarrow> refuses p request) \<longrightarrow>
      fst (resolve chain request) = Inl NoProviderFound)
   \<and> (i < length chain \<and> checker (chain ! i) request \<and> attempt (chain ! i) request = Raised e
        \<and> (\<forall>j<i. checker (chain ! j) request \<longrightarrow> refuses (chain ! j) request) \<longrightarrow>
      fst (resolve chain request) = Inl (ProviderError e)
      \<and> (\<forall>n \<in> set (snd (resolve chain request)). n \<le> i))"
  using resolve_from_all_refuse [of chain request 0] resolve_from_raised [of i chain request e 0]
  by (simp add: resolve_def)

theorem resolve_failure_witness:
  "\<not> checker (example_chain ! 0) 2 \<and> refuses (example_chain ! 1) 2 \<and> refuses (example_chain ! 2) 2
   \<and> fst (resolve example_chain 2) = Inl NoProviderFound
   \<and> 1 < length example_chain \<and> checker (example_chain ! 1) 3
   \<and> attempt (example_chain ! 1) 3 = Raised ''defect''
   \<and> \<not> checker (example_chain ! 0) 3
   \<and> fst (resolve example_chain 3) = Inl (ProviderError ''defect'')
   \<and> snd (resolve example_chain 3) = [1]"
proof -
  have a: "\<forall>p \<in> set example_chain. checker p 2 \<longrightarrow> refuses p 2"
    by (simp add: example_chain_def refuses_def)
  have b: "1 < length example_chain \<and> checker (example_chain ! 1) 3
      \<and> attempt (example_chain ! 1) 3 = Raised ''defect''
      \<and> (\<forall>j<1. checker (example_chain ! j) 3 \<longrightarrow> refuses (example_chain ! j) 3)"
    by (simp add: example_chain_def)
  have c: "\<not> checker (example_chain ! 0) 2 \<and> refuses (example_chain ! 1) 2
      \<and> refuses (example_chain ! 2) 2 \<and> \<not> checker (example_chain ! 0) 3"
    by (simp add: example_chain_def refuses_def)
  have d: "snd (resolve example_chain 3) = [1]"
    by (simp add: example_chain_def resolve_def)
  from resolve_failure [of example_chain 2 1 "''defect''"] a
  have r1: "fst (resolve example_chain 2) = Inl NoProviderFound" by blast
  from resolve_failure [of example_chain 3 1 "''defect''"] b
  have r2: "fst (resolve example_chain 3) = Inl (ProviderError ''defect'')" by blast
  from b c d r1 r2 show ?thesis by blast
qed

section \<open>The capture table holds the signature\<close>

text \<open>
  Claim C9. Whatever the plan, the closure name and the signature, a capture table that
  \<open>produce_code\<close> returns binds \<open>_closure_signature\<close> to the signature object, so it is
  never empty, also for a plan that lowers to a parameter reference only.
\<close>

theorem capture_table_has_closure_signature:
  assumes "produce_code plan closure_name sig = Inr (source, table)"
  shows "map_of table ''_closure_signature'' = Some (PySignature sig) \<and> table \<noteq> []"
proof -
  let ?ns = "\<lparr>dict = [(''_closure_signature'', PySignature sig)], occupied = parameters sig\<rparr>"
  from assms obtain body st where
    g: "gen_plan_element_dispatch (GenState ?ns) plan = Inr (body, st)" and
    t: "table = dict (ctx_namespace st)"
    by (auto simp: produce_code_def BuiltinContextNamespace_def namespace_add_def Let_def
        split: if_splits sum.splits prod.splits)
  from g have "extends (GenState ?ns) st" by (rule gen_plan_element_dispatch_extends)
  moreover have "map_of (dict (ctx_namespace (GenState ?ns))) ''_closure_signature'' = Some (PySignature sig)"
    by (simp add: GenState_def)
  ultimately have "map_of (dict (ctx_namespace st)) ''_closure_signature'' = Some (PySignature sig)"
    by (rule extends_map_of)
  with t show ?thesis by auto
qed

theorem capture_table_has_closure_signature_witness:
  "produce_code (ParameterElement ''x'') ''f'' (Signature [''x''] ''(x)'')
     = Inr (''def f(x):'' @ [CHR 0x0A] @ ''    return x'' @ [CHR 0x0A] @
              ''f.__signature__ = _closure_signature'',
            [(''_closure_signature'', PySignature (Signature [''x''] ''(x)''))])
   \<and> map_of [(''_closure_signature'', PySignature (Signature [''x''] ''(x)''))] ''_closure_signature''
       = Some (PySignature (Signature [''x''] ''(x)''))
   \<and> [(''_closure_signature'', PySignature (Signature [''x''] ''(x)''))] \<noteq> []"
proof -
  have h: "produce_code (ParameterElement ''x'') ''f'' (Signature [''x''] ''(x)'')
     = Inr (''def f(x):'' @ [CHR 0x0A] @ ''    return x'' @ [CHR 0x0A] @
              ''f.__signature__ = _closure_signature'',
            [(''_closure_signature'', PySignature (Signature [''x''] ''(x)''))])"
    by (simp add: produce_code_def BuiltinContextNamespace_def namespace_add_def
        namespace_contains_def GenState_def gen_parameter_element_def code_builder_string_def)
  from capture_table_has_closure_signature [OF h] h show ?thesis by blast
qed

section \<open>When the identity call is eliminated\<close>

text \<open>
  Claim C10. A call node lowers to what its argument lowers to when its callable is
  \<open>as_is_stub\<close> and its argument list has exactly one slot, which is positional. In
  every other case (another callable, a keyword or unpack slot, another arity) a tree
  that the lowering returns is an ordinary call, with one argument per slot, of a name
  that was free in the namespace before and that the capture table binds to the
  callable.
\<close>

theorem identity_elimination_only_single_positional:
  "(f = as_is_stub \<and> length args = 1 \<and> isinstance_PositionalArg (args ! 0) \<longrightarrow>
      gen_plan_element_dispatch st (FunctionElement f args)
        = gen_plan_element_dispatch st (element (args ! 0)))
   \<and> (\<not> (f = as_is_stub \<and> length args = 1 \<and> isinstance_PositionalArg (args ! 0)) \<longrightarrow>
        (\<forall>a st'. gen_plan_element_dispatch st (FunctionElement f args) = Inr (a, st') \<longrightarrow>
           (\<exists>name as ks. a = Call (Name name) as ks
              \<and> length as + length ks = length args
              \<and> \<not> namespace_contains (ctx_namespace st) name
              \<and> map_of (dict (ctx_namespace st')) name = Some f)))"
proof (cases "f = as_is_stub \<and> length args = 1 \<and> isinstance_PositionalArg (args ! 0)")
  case True
  then have "gen_function_element st f args = gen_plan_element_dispatch st (element (args ! 0))"
    by (subst gen_function_element_source) simp
  with True show ?thesis by simp
next
  case False
  then have fe: "gen_function_element st f args = gen_call st f args"
    by (subst gen_function_element_source) (auto simp del: gen_call.simps)
  have eq: "gen_plan_element_dispatch st (FunctionElement f args) = gen_call st f args"
    by (simp only: gen_plan_element_dispatch.simps fe)
  show ?thesis
    unfolding eq using False gen_call_result [of st f args] by blast
qed

theorem identity_elimination_only_single_positional_witness:
  "(as_is_stub = as_is_stub \<and> length [PositionalArg (ConstantElement (PyInt 42))] = 1
      \<and> isinstance_PositionalArg ([PositionalArg (ConstantElement (PyInt 42))] ! 0))
   \<and> gen_plan_element_dispatch (GenState (BuiltinContextNamespace [''x'']))
        (FunctionElement as_is_stub [PositionalArg (ConstantElement (PyInt 42))])
      = Inr (Parsed ''42'', GenState (BuiltinContextNamespace [''x'']))
   \<and> \<not> (as_is_stub = as_is_stub \<and> length [KeywordArg ''k'' (ParameterElement ''x'')] = 1
      \<and> isinstance_PositionalArg ([KeywordArg ''k'' (ParameterElement ''x'')] ! 0))
   \<and> gen_plan_element_dispatch (GenState (BuiltinContextNamespace [''x'']))
        (FunctionElement as_is_stub [KeywordArg ''k'' (ParameterElement ''x'')])
      = Inr (Call (Name ''as_is_stub'') [] [Keyword (Some ''k'') (Name ''x'')],
             GenState \<lparr>dict = [(''as_is_stub'', as_is_stub)], occupied = [''x'']\<rparr>)
   \<and> (\<exists>name as ks.
         Call (Name ''as_is_stub'') [] [Keyword (Some ''k'') (Name ''x'')] = Call (Name name) as ks
         \<and> length as + length ks = length [KeywordArg ''k'' (ParameterElement ''x'')]
         \<and> \<not> namespace_contains (ctx_namespace (GenState (BuiltinContextNamespace [''x'']))) name
         \<and> map_of (dict (ctx_namespace (GenState \<lparr>dict = [(''as_is_stub'', as_is_stub)], occupied = [''x'']\<rparr>))) name
             = Some as_is_stub)"
proof -
  let ?st = "GenState (BuiltinContextNamespace [''x''])"
  let ?st' = "GenState \<lparr>dict = [(''as_is_stub'', as_is_stub)], occupied = [''x'']\<rparr>"
  have c1: "as_is_stub = as_is_stub \<and> length [PositionalArg (ConstantElement (PyInt 42))] = 1
      \<and> isinstance_PositionalArg ([PositionalArg (ConstantElement (PyInt 42))] ! 0)"
    by simp
  have e1: "gen_plan_element_dispatch ?st (element ([PositionalArg (ConstantElement (PyInt 42))] ! 0))
      = Inr (Parsed ''42'', ?st)"
    by (simp add: gen_constant_element_def py_repr_int_42)
  have c2: "\<not> (as_is_stub = as_is_stub \<and> length [KeywordArg ''k'' (ParameterElement ''x'')] = 1
      \<and> isinstance_PositionalArg ([KeywordArg ''k'' (ParameterElement ''x'')] ! 0))"
    by simp
  have e2: "gen_plan_element_dispatch ?st (FunctionElement as_is_stub [KeywordArg ''k'' (ParameterElement ''x'')])
      = Inr (Call (Name ''as_is_stub'') [] [Keyword (Some ''k'') (Name ''x'')], ?st')"
    by (simp add: register_func_def as_is_stub_def register_mangled_def namespace_add_def
        namespace_contains_def GenState_def BuiltinContextNamespace_def gen_parameter_element_def)
  from identity_elimination_only_single_positional
    [of as_is_stub "[PositionalArg (ConstantElement (PyInt 42))]" ?st] c1 e1
  have r1: "gen_plan_element_dispatch ?st
        (FunctionElement as_is_stub [PositionalArg (ConstantElement (PyInt 42))])
      = Inr (Parsed ''42'', ?st)"
    by simp
  from identity_elimination_only_single_positional
    [of as_is_stub "[KeywordArg ''k'' (ParameterElement ''x'')]" ?st] c2 e2
  have r2: "\<exists>name as ks.
         Call (Name ''as_is_stub'') [] [Keyword (Some ''k'') (Name ''x'')] = Call (Name name) as ks
         \<and> length as + length ks = length [KeywordArg ''k'' (ParameterElement ''x'')]
         \<and> \<not> namespace_contains (ctx_namespace ?st) name
         \<and> map_of (dict (ctx_namespace ?st')) name = Some as_is_stub"
    by blast
  from c1 r1 c2 e2 r2 show ?thesis by blast
qed

end
